theory Spec2Isabelle
  imports Main
begin

section \<open>JavaScript values used by AnalyticsOverview.js\<close>

text \<open>
  The component works on integral millisecond counts (\<open>Date.now()\<close>, sums and differences
  of such, results of \<open>parseInt\<close>). They are modelled as \<open>int\<close>; the model is exact as
  long as the magnitudes stay below \<open>2^53\<close>, where JavaScript numbers are exact integers.
  Strings are byte strings; \<open>null\<close> (a missing storage entry) is \<open>None\<close>.
\<close>

subsection \<open>Number to string: \<open>String(n)\<close>, as done by \<open>localStorage.setItem\<close> and template literals\<close>

definition digit_char :: "int \<Rightarrow> char" where
  "digit_char d = char_of (48 + d)"

function digits_of :: "int \<Rightarrow> string" where
  "digits_of n =
     (if n < 10 then [digit_char n] else digits_of (n div 10) @ [digit_char (n mod 10)])"
  by pat_completeness auto
termination
  by (relation "measure nat") auto

declare digits_of.simps [simp del]

definition js_String :: "int \<Rightarrow> string" where
  "js_String i = (if i < 0 then CHR ''-'' # digits_of (- i) else digits_of i)"

subsection \<open>\<open>parseInt(s, 10)\<close>\<close>

definition is_digit :: "char \<Rightarrow> bool" where
  "is_digit c = (48 \<le> (of_char c :: int) \<and> (of_char c :: int) \<le> 57)"

definition digit_val :: "char \<Rightarrow> int" where
  "digit_val c = of_char c - 48"

text \<open>The white space that \<open>parseInt\<close> skips, restricted to ASCII: TAB, LF, VT, FF, CR, SP.\<close>

definition is_space :: "char \<Rightarrow> bool" where
  "is_space c = ((of_char c :: int) \<in> {9, 10, 11, 12, 13, 32})"

text \<open>The value of the longest prefix of decimal digits, accumulated from the left.\<close>

fun parse_digits :: "int \<Rightarrow> string \<Rightarrow> int" where
  "parse_digits acc [] = acc"
| "parse_digits acc (c # cs) =
     (if is_digit c then parse_digits (10 * acc + digit_val c) cs else acc)"

text \<open>\<open>ToString\<close> of what \<open>localStorage.getItem\<close> returns: \<open>null\<close> becomes the text "null".\<close>

definition js_ToString :: "string option \<Rightarrow> string" where
  "js_ToString v = (case v of None \<Rightarrow> ''null'' | Some s \<Rightarrow> s)"

text \<open>
  \<open>parseInt(v, 10)\<close>: skip leading white space, read an optional sign, then the longest
  run of digits; \<open>NaN\<close> (here \<open>None\<close>) when there is no digit.
\<close>

definition parseInt :: "string option \<Rightarrow> int option" where
  "parseInt v =
     (let s = dropWhile is_space (js_ToString v);
          neg = (s \<noteq> [] \<and> hd s = CHR ''-'');
          body = (if s \<noteq> [] \<and> (hd s = CHR ''-'' \<or> hd s = CHR ''+'') then tl s else s)
      in if body \<noteq> [] \<and> is_digit (hd body)
         then Some (if neg then - parse_digits 0 body else parse_digits 0 body)
         else None)"

text \<open>\<open>if (x)\<close> on a number: \<open>NaN\<close> and \<open>0\<close> are falsy.\<close>

definition truthy :: "int option \<Rightarrow> bool" where
  "truthy x = (case x of None \<Rightarrow> False | Some n \<Rightarrow> n \<noteq> 0)"

text \<open>\<open>x || 0\<close> on a number.\<close>

definition or_zero :: "int option \<Rightarrow> int" where
  "or_zero x = (case x of None \<Rightarrow> 0 | Some n \<Rightarrow> n)"

subsection \<open>\<open>padStart\<close>, \<open>%\<close>\<close>

definition padStart :: "nat \<Rightarrow> char \<Rightarrow> string \<Rightarrow> string" where
  "padStart n c s = replicate (n - length s) c @ s"

text \<open>The remainder operator of JavaScript truncates: the result has the sign of the dividend.\<close>

definition js_rem :: "int \<Rightarrow> int \<Rightarrow> int" where
  "js_rem a b = sgn a * (\<bar>a\<bar> mod \<bar>b\<bar>)"

subsection \<open>\<open>Date\<close>: the UTC calendar date of an instant\<close>

text \<open>
  An instant is a count of milliseconds since the epoch, as \<open>Date.now()\<close> returns it.
  \<open>civil_from_days\<close> turns a count of days since 1970-01-01 into the proleptic Gregorian
  (year, month, day), which is what \<open>toISOString\<close> prints, in UTC.
\<close>

definition civil_from_days :: "int \<Rightarrow> int \<times> int \<times> int" where
  "civil_from_days days =
     (let z = days + 719468;
          era = z div 146097;
          doe = z mod 146097;
          yoe = (doe - doe div 1460 + doe div 36524 - doe div 146096) div 365;
          doy = doe - (365 * yoe + yoe div 4 - yoe div 100);
          mp = (5 * doy + 2) div 153;
          d = doy - (153 * mp + 2) div 5 + 1;
          m = (if mp < 10 then mp + 3 else mp - 9);
          y = yoe + era * 400
      in (if m \<le> 2 then y + 1 else y, m, d))"

definition pad_num :: "nat \<Rightarrow> int \<Rightarrow> string" where
  "pad_num n v = padStart n (CHR ''0'') (js_String v)"

text \<open>Years 0 to 9999 print with four digits, the others with a sign and six digits.\<close>

definition iso_year :: "int \<Rightarrow> string" where
  "iso_year y =
     (if 0 \<le> y \<and> y \<le> 9999 then pad_num 4 y
      else (if y < 0 then CHR ''-'' else CHR ''+'') # pad_num 6 \<bar>y\<bar>)"

definition iso_date :: "int \<Rightarrow> string" where
  "iso_date day =
     (case civil_from_days day of (y, m, d) \<Rightarrow>
        iso_year y @ ''-'' @ pad_num 2 m @ ''-'' @ pad_num 2 d)"

definition toISOString :: "int \<Rightarrow> string" where
  "toISOString t =
     (let ms = t mod 86400000
      in iso_date (t div 86400000) @ ''T'' @ pad_num 2 (ms div 3600000) @ '':''
         @ pad_num 2 (ms div 60000 mod 60) @ '':'' @ pad_num 2 (ms div 1000 mod 60) @ ''.''
         @ pad_num 3 (ms mod 1000) @ ''Z'')"

text \<open>\<open>s.split(c)[0]\<close>: the text before the first occurrence of \<open>c\<close>.\<close>

definition split_head :: "char \<Rightarrow> string \<Rightarrow> string" where
  "split_head c s = takeWhile (\<lambda>x. x \<noteq> c) s"

text \<open>Line 79: \<open>new Date().toISOString().split('T')[0]\<close>, evaluated at instant \<open>now\<close>.\<close>

definition todayKey :: "int \<Rightarrow> string" where
  "todayKey now = split_head (CHR ''T'') (toISOString now)"

subsection \<open>\<open>Date\<close>: local time\<close>



definition setHours :: "int \<Rightarrow> int \<Rightarrow> int \<Rightarrow> int \<Rightarrow> int \<Rightarrow> int \<Rightarrow> int" where
  "setHours off t h m s ms =
     t - (t + off) mod 86400000 + (((h * 60 + m) * 60 + s) * 1000 + ms)"

section \<open>The component\<close>

subsection \<open>State\<close>

text \<open>
  \<open>localStorage\<close> is a map from keys to strings. \<open>calls\<close> records every \<open>setItem\<close> and
  \<open>removeItem\<close> call in order, so that the number of writes can be stated. The remaining
  fields are the five \<open>useState\<close> cells of the component.
\<close>

datatype storage_call = SetItem string string | RemoveItem string

record uptime_entry =
  time :: string
  uptime :: int

record world =
  localStorage :: "string \<rightharpoonup> string"
  calls :: "storage_call list"
  totalSessions :: "int option"
  totalScenarios :: nat
  dailyUptime :: int
  uptimeHistory :: "uptime_entry list"
  sessionActive :: bool

definition getItem :: "string \<Rightarrow> world \<Rightarrow> string option" where
  "getItem k w = localStorage w k"

definition setItem :: "string \<Rightarrow> string \<Rightarrow> world \<Rightarrow> world" where
  "setItem k v w = w\<lparr>localStorage := (localStorage w)(k \<mapsto> v), calls := calls w @ [SetItem k v]\<rparr>"

definition removeItem :: "string \<Rightarrow> world \<Rightarrow> world" where
  "removeItem k w = w\<lparr>localStorage := (localStorage w)(k := None), calls := calls w @ [RemoveItem k]\<rparr>"

text \<open>
  The functions of the component are closures: each is created by one render and reads
  \<open>todayKey\<close> and \<open>sessionActive\<close> as that render saw them. The mount effect (dependency
  list \<open>[]\<close>) keeps the closures of the first render; the interval effect (dependency list
  \<open>[sessionActive]\<close>) keeps those of the render in which \<open>sessionActive\<close> last changed;
  the End Session button gets those of the latest render.
\<close>

record closure =
  cl_todayKey :: string
  cl_sessionActive :: bool

definition render :: "int \<Rightarrow> world \<Rightarrow> closure" where
  "render now w = \<lparr>cl_todayKey = todayKey now, cl_sessionActive = sessionActive w\<rparr>"

text \<open>The state of a freshly created component: the arguments of the \<open>useState\<close> calls.\<close>

definition fresh :: "(string \<rightharpoonup> string) \<Rightarrow> world" where
  "fresh store = \<lparr>localStorage = store, calls = [], totalSessions = Some 0, totalScenarios = 0,
     dailyUptime = 0, uptimeHistory = [], sessionActive = False\<rparr>"

text \<open>The template literal \<open>`dailyUptime_${todayKey}`\<close>, and the key a closure uses.\<close>

definition uptimeKey :: "string \<Rightarrow> string" where
  "uptimeKey d = ''dailyUptime_'' @ d"

definition dailyKey :: "closure \<Rightarrow> string" where
  "dailyKey cl = uptimeKey (cl_todayKey cl)"

subsection \<open>\<open>formatUptime\<close>\<close>

definition formatUptime :: "int \<Rightarrow> string" where
  "formatUptime ms =
     (let mins = ms div 60000;
          h = padStart 2 (CHR ''0'') (js_String (mins div 60));
          m = padStart 2 (CHR ''0'') (js_String (js_rem mins 60))
      in h @ ''h '' @ m @ ''m'')"

subsection \<open>\<open>startSession\<close>, \<open>endSession\<close>\<close>

definition startSession :: "closure \<Rightarrow> int \<Rightarrow> world \<Rightarrow> world" where
  "startSession cl now w =
     (if \<not> cl_sessionActive cl
      then (setItem ''sessionActive'' ''true'' (setItem ''sessionStart'' (js_String now) w))
             \<lparr>sessionActive := True\<rparr>
      else w)"

definition endSession :: "closure \<Rightarrow> int \<Rightarrow> world \<Rightarrow> world" where
  "endSession cl now w =
     (let startTs = parseInt (getItem ''sessionStart'' w);
          w1 = (if truthy startTs
                then (let elapsed = now - or_zero startTs;
                          prev = or_zero (parseInt (getItem (dailyKey cl) w));
                          total = prev + elapsed
                      in (setItem (dailyKey cl) (js_String total) w)\<lparr>dailyUptime := total\<rparr>)
                else w)
      in (setItem ''sessionActive'' ''false'' (removeItem ''sessionStart'' w1))
           \<lparr>sessionActive := False\<rparr>)"

subsection \<open>The mount effect and its cleanup (lines 111 to 123)\<close>

definition mount_effect :: "closure \<Rightarrow> int \<Rightarrow> world \<Rightarrow> world" where
  "mount_effect cl now w =
     (let active = (getItem ''sessionActive'' w = Some ''true'');
          w1 = w\<lparr>sessionActive := active\<rparr>;
          storedUptime = or_zero (parseInt (getItem (dailyKey cl) w1));
          w2 = w1\<lparr>dailyUptime := storedUptime\<rparr>
      in if \<not> active then startSession cl now w2 else w2)"

text \<open>The cleanup and the \<open>beforeunload\<close> listener are both the first render's \<open>endSession\<close>.\<close>

definition unmount :: "closure \<Rightarrow> int \<Rightarrow> world \<Rightarrow> world" where
  "unmount cl now w = endSession cl now w"

subsection \<open>The interval callback (lines 126 to 141)\<close>

text \<open>\<open>tstr\<close> is what \<open>new Date().toLocaleTimeString()\<close> returns when the callback runs.\<close>

definition tick :: "closure \<Rightarrow> int \<Rightarrow> string \<Rightarrow> world \<Rightarrow> world" where
  "tick cl now tstr w =
     (if cl_sessionActive cl
      then (let startTs = parseInt (getItem ''sessionStart'' w)
            in if truthy startTs
               then (let elapsed = now - or_zero startTs;
                         prev = or_zero (parseInt (getItem (dailyKey cl) w));
                         total = prev + elapsed;
                         w1 = w\<lparr>dailyUptime := total\<rparr>;
                         w2 = w1\<lparr>uptimeHistory :=
                                 uptimeHistory w1 @ [\<lparr>time = tstr, uptime = total div 60000\<rparr>]\<rparr>
                     in setItem (dailyKey cl) (js_String total) w2)
               else w)
      else w)"

subsection \<open>The session count effect (lines 146 to 149)\<close>

text \<open>\<open>s || '0'\<close> on what \<open>getItem\<close> returns: \<open>null\<close> and the empty string give \<open>'0'\<close>.\<close>

definition or_zero_string :: "string option \<Rightarrow> string" where
  "or_zero_string v = (case v of None \<Rightarrow> ''0'' | Some s \<Rightarrow> if s = [] then ''0'' else s)"

definition sessionCount_effect :: "world \<Rightarrow> world" where
  "sessionCount_effect w =
     w\<lparr>totalSessions := parseInt (Some (or_zero_string (getItem ''sessionCount'' w)))\<rparr>"

subsection \<open>\<open>fetchScenarios\<close> (lines 151 to 168)\<close>

text \<open>
  The remote collection is a list of documents, each with a \<open>date\<close> (an instant). The
  range query returns the documents that satisfy both \<open>where\<close> clauses. \<open>now1\<close> and
  \<open>now2\<close> are the instants of the two \<open>new Date()\<close> calls.
\<close>

record scenario =
  date :: int

definition getDocs :: "int \<Rightarrow> int \<Rightarrow> scenario list \<Rightarrow> scenario list" where
  "getDocs lo hi docs = filter (\<lambda>d. lo \<le> date d \<and> date d \<le> hi) docs"

definition fetchScenarios :: "int \<Rightarrow> int \<Rightarrow> int \<Rightarrow> scenario list \<Rightarrow> world \<Rightarrow> world" where
  "fetchScenarios off now1 now2 docs w =
     (let startOfDay = setHours off now1 0 0 0 0;
          endOfDay = setHours off now2 23 59 59 999;
          snapshot = getDocs startOfDay endOfDay docs
      in w\<lparr>totalScenarios := length snapshot\<rparr>)"

subsection \<open>The operations of the component\<close>

datatype operation =
    StartSession
  | EndSession
  | Tick string
  | Mount
  | Unmount
  | LoadSessionCount
  | FetchScenarios int int "scenario list"

fun exec :: "closure \<Rightarrow> int \<Rightarrow> operation \<Rightarrow> world \<Rightarrow> world" where
  "exec cl now StartSession w = startSession cl now w"
| "exec cl now EndSession w = endSession cl now w"
| "exec cl now (Tick tstr) w = tick cl now tstr w"
| "exec cl now Mount w = mount_effect cl now w"
| "exec cl now Unmount w = unmount cl now w"
| "exec cl now LoadSessionCount w = sessionCount_effect w"
| "exec cl now (FetchScenarios off now2 docs) w = fetchScenarios off now now2 docs w"

subsection \<open>Observations used in the statements\<close>



text \<open>
  The number the component reads from a storage entry:
  \<open>parseInt(localStorage.getItem(k), 10) || 0\<close>.
\<close>

definition uptime_at :: "world \<Rightarrow> string \<Rightarrow> int" where
  "uptime_at w k = or_zero (parseInt (localStorage w k))"

text \<open>
  The interval callback run once per entry of \<open>tstrs\<close> (the display times), every 60000 ms,
  the first run 60000 ms after \<open>t\<close>, always through the same closure.
\<close>

fun run_ticks :: "closure \<Rightarrow> int \<Rightarrow> string list \<Rightarrow> world \<Rightarrow> world" where
  "run_ticks cl t [] w = w"
| "run_ticks cl t (tstr # tstrs) w = run_ticks cl (t + 60000) tstrs (tick cl (t + 60000) tstr w)"

section \<open>Properties\<close>

subsection \<open>The model on known values\<close>

text \<open>What the JavaScript functions return on these inputs, for comparison with the model.\<close>

lemma parseInt_null: "parseInt None = None"
  by code_simp

lemma parseInt_not_a_number: "parseInt (Some ''abc'') = None"
  by code_simp

lemma parseInt_zero: "parseInt (Some ''0'') = Some 0"
  by code_simp

lemma parseInt_prefix: "parseInt (Some '' -12px'') = Some (- 12)"
  by code_simp

lemma js_String_negative: "js_String (- 120) = ''-120''"
  by code_simp

lemma toISOString_epoch: "toISOString 0 = ''1970-01-01T00:00:00.000Z''"
  by code_simp

lemma toISOString_leap_day: "toISOString 951782400123 = ''2000-02-29T00:00:00.123Z''"
  by code_simp

lemma toISOString_before_epoch: "toISOString (- 1) = ''1969-12-31T23:59:59.999Z''"
  by code_simp

lemma toISOString_last_instant: "toISOString 8640000000000000 = ''+275760-09-13T00:00:00.000Z''"
  by code_simp

lemma todayKey_example: "todayKey 1704153570000 = ''2024-01-01''"
  by code_simp

lemma formatUptime_negative: "formatUptime (- 1) = ''-1h -1m''"
  by code_simp

subsection \<open>Digits\<close>

lemma is_digit_digit_char: "0 \<le> d \<Longrightarrow> d < 10 \<Longrightarrow> is_digit (digit_char d)"
  by (simp add: is_digit_def digit_char_def)

lemma digit_val_digit_char: "0 \<le> d \<Longrightarrow> d < 10 \<Longrightarrow> digit_val (digit_char d) = d"
  by (simp add: digit_val_def digit_char_def)

lemma digits_of_all_digits: "0 \<le> n \<Longrightarrow> list_all is_digit (digits_of n)"
proof (induction n rule: digits_of.induct)
  case (1 n)
  show ?case
  proof (cases "n < 10")
    case True
    with 1 show ?thesis by (subst digits_of.simps) (simp add: is_digit_digit_char)
  next
    case False
    with 1 show ?thesis by (subst digits_of.simps) (simp add: is_digit_digit_char)
  qed
qed

lemma digits_of_nonempty: "digits_of n \<noteq> []"
  by (subst digits_of.simps) simp

lemma parse_digits_append:
  "list_all is_digit xs \<Longrightarrow> parse_digits acc (xs @ ys) = parse_digits (parse_digits acc xs) ys"
  by (induction xs arbitrary: acc) auto

text \<open>Reading back the decimal digits of a number gives the number.\<close>

lemma parse_digits_digits_of: "0 \<le> n \<Longrightarrow> parse_digits 0 (digits_of n) = n"
proof (induction n rule: digits_of.induct)
  case (1 n)
  show ?case
  proof (cases "n < 10")
    case True
    with 1 show ?thesis
      by (subst digits_of.simps) (simp add: is_digit_digit_char digit_val_digit_char)
  next
    case False
    with 1 have ih: "parse_digits 0 (digits_of (n div 10)) = n div 10" by simp
    have "parse_digits 0 (digits_of (n div 10) @ [digit_char (n mod 10)])
        = parse_digits (n div 10) [digit_char (n mod 10)]"
      using 1 False by (simp add: parse_digits_append digits_of_all_digits ih)
    also have "\<dots> = n"
      by (simp add: is_digit_digit_char digit_val_digit_char)
    finally show ?thesis using False by (subst digits_of.simps) simp
  qed
qed

lemma hd_digits_of_digit: "0 \<le> n \<Longrightarrow> is_digit (hd (digits_of n))"
  using digits_of_all_digits [of n] digits_of_nonempty [of n]
  by (cases "digits_of n") auto

lemma minus_not_digit_space: "\<not> is_digit CHR ''-''" "\<not> is_space CHR ''-''"
  by (simp_all add: is_digit_def is_space_def)

lemma digit_not_space: "is_digit c \<Longrightarrow> \<not> is_space c"
  by (auto simp: is_digit_def is_space_def)

lemma digit_not_sign: "is_digit c \<Longrightarrow> c \<noteq> CHR ''-'' \<and> c \<noteq> CHR ''+''"
  by (auto simp: is_digit_def)

text \<open>What \<open>setItem\<close> stores for a number, \<open>parseInt\<close> reads back.\<close>

lemma parseInt_js_String: "parseInt (Some (js_String i)) = Some i"
proof (cases "i < 0")
  case True
  obtain c cs where d: "digits_of (- i) = c # cs"
    using digits_of_nonempty [of "- i"] by (cases "digits_of (- i)") auto
  have c: "is_digit c" using hd_digits_of_digit [of "- i"] d True by simp
  have v: "parse_digits 0 (c # cs) = - i"
    using parse_digits_digits_of [of "- i"] d True by simp
  show ?thesis using True c v
    by (simp add: parseInt_def js_String_def js_ToString_def d minus_not_digit_space Let_def
        del: parse_digits.simps)
next
  case False
  obtain c cs where d: "digits_of i = c # cs"
    using digits_of_nonempty [of i] by (cases "digits_of i") auto
  have c: "is_digit c" using hd_digits_of_digit [of i] d False by simp
  have v: "parse_digits 0 (c # cs) = i"
    using parse_digits_digits_of [of i] d False by simp
  show ?thesis using False c v digit_not_space [OF c] digit_not_sign [OF c]
    by (simp add: parseInt_def js_String_def js_ToString_def d Let_def del: parse_digits.simps)
qed

subsection \<open>Padding\<close>





lemma length_digits_of_pos: "0 < length (digits_of n)"
  using digits_of_nonempty [of n] by simp





subsection \<open>Storage keys and numbers read back\<close>

lemma uptimeKey_neq: "uptimeKey d \<noteq> ''sessionStart''" "uptimeKey d \<noteq> ''sessionActive''"
  "''sessionStart'' \<noteq> uptimeKey d" "''sessionActive'' \<noteq> uptimeKey d"
  by (simp_all add: uptimeKey_def)

lemma uptimeKey_inj: "(uptimeKey d = uptimeKey e) = (d = e)"
  by (simp add: uptimeKey_def)

lemma dailyKey_neq: "dailyKey cl \<noteq> ''sessionStart''" "dailyKey cl \<noteq> ''sessionActive''"
  "''sessionStart'' \<noteq> dailyKey cl" "''sessionActive'' \<noteq> dailyKey cl"
  by (simp_all add: dailyKey_def uptimeKey_neq)

lemma truthy_Some: "truthy (Some n) = (n \<noteq> 0)"
  by (simp add: truthy_def)

lemma or_zero_Some: "or_zero (Some n) = n"
  by (simp add: or_zero_def)

subsection \<open>What each operation does to the history\<close>

lemma uptimeHistory_setItem [simp]: "uptimeHistory (setItem k v w) = uptimeHistory w"
  by (simp add: setItem_def)

lemma uptimeHistory_removeItem [simp]: "uptimeHistory (removeItem k w) = uptimeHistory w"
  by (simp add: removeItem_def)

lemma uptimeHistory_startSession: "uptimeHistory (startSession cl now w) = uptimeHistory w"
  by (simp add: startSession_def)

lemma uptimeHistory_endSession: "uptimeHistory (endSession cl now w) = uptimeHistory w"
  by (simp add: endSession_def Let_def)

lemma uptimeHistory_mount_effect: "uptimeHistory (mount_effect cl now w) = uptimeHistory w"
  by (simp add: mount_effect_def Let_def uptimeHistory_startSession)

lemma uptimeHistory_tick:
  "uptimeHistory (tick cl now tstr w) =
     (if cl_sessionActive cl \<and> truthy (parseInt (localStorage w ''sessionStart''))
      then uptimeHistory w
             @ [\<lparr>time = tstr, uptime = uptime_at (tick cl now tstr w) (dailyKey cl) div 60000\<rparr>]
      else uptimeHistory w)"
  by (simp add: tick_def Let_def getItem_def setItem_def uptime_at_def parseInt_js_String or_zero_def)

subsection \<open>What each operation does to the daily totals\<close>





lemma uptime_at_tick:
  "uptime_at (tick cl now tstr w) (uptimeKey d) =
     (if cl_sessionActive cl \<and> truthy (parseInt (localStorage w ''sessionStart''))
         \<and> cl_todayKey cl = d
      then uptime_at w (uptimeKey d)
             + (now - or_zero (parseInt (localStorage w ''sessionStart'')))
      else uptime_at w (uptimeKey d))"
  by (simp add: tick_def Let_def getItem_def setItem_def uptime_at_def
      dailyKey_def parseInt_js_String or_zero_Some uptimeKey_inj)


subsection \<open>Local days\<close>






subsection \<open>The characters of an ISO date\<close>







subsection \<open>Repeated interval callbacks\<close>

lemma sessionStart_tick:
  "localStorage (tick cl now tstr w) ''sessionStart'' = localStorage w ''sessionStart''"
  by (simp add: tick_def Let_def setItem_def dailyKey_neq)

lemma length_uptimeHistory_tick:
  "cl_sessionActive cl \<Longrightarrow> truthy (parseInt (localStorage w ''sessionStart''))
   \<Longrightarrow> length (uptimeHistory (tick cl now tstr w)) = Suc (length (uptimeHistory w))"
  by (simp add: uptimeHistory_tick)

lemma run_ticks_total:
  assumes "cl_sessionActive cl" and "parseInt (localStorage w ''sessionStart'') = Some s"
    and "s \<noteq> 0"
  shows "uptime_at (run_ticks cl t tstrs w) (dailyKey cl)
           = uptime_at w (dailyKey cl)
             + (int (length tstrs) * (t - s) + 30000 * int (length tstrs) * (int (length tstrs) + 1))
         \<and> length (uptimeHistory (run_ticks cl t tstrs w))
           = length (uptimeHistory w) + length tstrs"
  using assms(2)
proof (induction tstrs arbitrary: t w)
  case Nil
  then show ?case by simp
next
  case (Cons tstr tstrs)
  let ?w = "tick cl (t + 60000) tstr w"
  have tr: "truthy (parseInt (localStorage w ''sessionStart''))"
    using Cons.prems assms(3) by (simp add: truthy_Some)
  have st: "parseInt (localStorage ?w ''sessionStart'') = Some s"
    using Cons.prems by (simp add: sessionStart_tick)
  have up: "uptime_at ?w (dailyKey cl) = uptime_at w (dailyKey cl) + (t + 60000 - s)"
    using assms(1) tr Cons.prems
    by (simp add: dailyKey_def uptime_at_tick or_zero_Some)
  have len: "length (uptimeHistory ?w) = Suc (length (uptimeHistory w))"
    using assms(1) tr by (rule length_uptimeHistory_tick)
  show ?case
    using Cons.IH [OF st, of "t + 60000"] up len
    by (simp add: algebra_simps)
qed

section \<open>The claims\<close>

subsection \<open>Claim C1: what N interval callbacks add\<close>

text \<open>
  C1. With an active closure and a truthy start marker \<open>s\<close>, \<open>N\<close> interval callbacks at
  \<open>s + 60000\<close>, \<open>s + 120000\<close>, ... append exactly \<open>N\<close> history entries, but the daily total
  grows by \<open>30000 * N * (N + 1)\<close> ms, which is \<open>N * 60000\<close> only for \<open>N \<le> 1\<close>: each callback
  adds the whole time since \<open>s\<close> again, because the marker is never moved forward. After two
  callbacks the total has grown by 180000 ms, not by 120000 ms.
\<close>

theorem ticks_accumulate:
  assumes "cl_sessionActive cl" and "parseInt (localStorage w ''sessionStart'') = Some s"
    and "s \<noteq> 0"
  shows "uptime_at (run_ticks cl s tstrs w) (dailyKey cl)
           = uptime_at w (dailyKey cl) + 30000 * int (length tstrs) * (int (length tstrs) + 1)
         \<and> length (uptimeHistory (run_ticks cl s tstrs w))
           = length (uptimeHistory w) + length tstrs"
  using run_ticks_total [OF assms, of s tstrs] by simp

theorem ticks_accumulate_witness:
  "(let w = (fresh [''sessionStart'' \<mapsto> ''1704067200000''])\<lparr>sessionActive := True\<rparr>;
        cl = render 1704067200000 w;
        w2 = run_ticks cl 1704067200000 [''00:01:00'', ''00:02:00''] w
    in cl_sessionActive cl
       \<and> parseInt (localStorage w ''sessionStart'') = Some 1704067200000
       \<and> uptime_at w (dailyKey cl) = 0
       \<and> uptime_at w2 (dailyKey cl) = 180000
       \<and> uptime_at w2 (dailyKey cl) \<noteq> uptime_at w (dailyKey cl) + 2 * 60000
       \<and> localStorage w2 ''dailyUptime_2024-01-01'' = Some ''180000''
       \<and> uptimeHistory w2 = [\<lparr>time = ''00:01:00'', uptime = 1\<rparr>, \<lparr>time = ''00:02:00'', uptime = 3\<rparr>])"
proof -
  define w where "w = (fresh [''sessionStart'' \<mapsto> ''1704067200000''])\<lparr>sessionActive := True\<rparr>"
  define cl where "cl = render 1704067200000 w"
  define w2 where "w2 = run_ticks cl 1704067200000 [''00:01:00'', ''00:02:00''] w"
  have h1: "cl_sessionActive cl" unfolding cl_def w_def by code_simp
  have h2: "parseInt (localStorage w ''sessionStart'') = Some 1704067200000"
    unfolding w_def by code_simp
  have h3: "(1704067200000 :: int) \<noteq> 0" by simp
  have z: "uptime_at w (dailyKey cl) = 0" unfolding cl_def w_def by code_simp
  have r: "uptime_at w2 (dailyKey cl) = 180000"
    using ticks_accumulate [OF h1 h2 h3, of "[''00:01:00'', ''00:02:00'']"] z
    unfolding w2_def by simp
  have s: "localStorage w2 ''dailyUptime_2024-01-01'' = Some ''180000''"
    unfolding w2_def cl_def w_def by code_simp
  have u: "uptimeHistory w2 = [\<lparr>time = ''00:01:00'', uptime = 1\<rparr>, \<lparr>time = ''00:02:00'', uptime = 3\<rparr>]"
    unfolding w2_def cl_def w_def by code_simp
  have "cl_sessionActive cl
       \<and> parseInt (localStorage w ''sessionStart'') = Some 1704067200000
       \<and> uptime_at w (dailyKey cl) = 0
       \<and> uptime_at w2 (dailyKey cl) = 180000
       \<and> uptime_at w2 (dailyKey cl) \<noteq> uptime_at w (dailyKey cl) + 2 * 60000
       \<and> localStorage w2 ''dailyUptime_2024-01-01'' = Some ''180000''
       \<and> uptimeHistory w2 = [\<lparr>time = ''00:01:00'', uptime = 1\<rparr>, \<lparr>time = ''00:02:00'', uptime = 3\<rparr>]"
    using h1 h2 z r s u by simp
  then show ?thesis unfolding Let_def w2_def cl_def w_def .
qed

subsection \<open>Claim C2: the format of \<open>formatUptime\<close>\<close>



subsection \<open>Claim C3: no start marker\<close>

text \<open>
  C3. When the entry \<open>sessionStart\<close> is absent, or \<open>parseInt\<close> of it is \<open>NaN\<close> or \<open>0\<close>,
  \<open>endSession\<close> only removes \<open>sessionStart\<close>, stores \<open>sessionActive = false\<close> and clears
  the in-memory flag: every \<open>dailyUptime_\<close> entry is as before. The interval callback
  changes nothing at all: no write, no history entry. Both are total functions of the
  model, with no error result (storage calls are taken to succeed).
\<close>

theorem missing_start_marker_skipped:
  assumes "localStorage w ''sessionStart'' = None
           \<or> \<not> truthy (parseInt (localStorage w ''sessionStart''))"
  shows "endSession cl now w =
           w\<lparr>localStorage := (localStorage w)(''sessionStart'' := None, ''sessionActive'' \<mapsto> ''false''),
             calls := calls w @ [RemoveItem ''sessionStart'', SetItem ''sessionActive'' ''false''],
             sessionActive := False\<rparr>
         \<and> (\<forall>d. localStorage (endSession cl now w) (uptimeKey d)
                  = localStorage w (uptimeKey d))
         \<and> localStorage (endSession cl now w) ''sessionStart'' = None
         \<and> sessionActive (endSession cl now w) = False
         \<and> tick cl now tstr w = w"
proof -
  have nt: "\<not> truthy (parseInt (localStorage w ''sessionStart''))"
    using assms by (auto simp: parseInt_def js_ToString_def truthy_def is_space_def is_digit_def)
  have e: "endSession cl now w =
           w\<lparr>localStorage := (localStorage w)(''sessionStart'' := None, ''sessionActive'' \<mapsto> ''false''),
             calls := calls w @ [RemoveItem ''sessionStart'', SetItem ''sessionActive'' ''false''],
             sessionActive := False\<rparr>"
    using nt by (simp add: endSession_def getItem_def setItem_def removeItem_def)
  have t: "tick cl now tstr w = w"
    using nt by (simp add: tick_def getItem_def)
  show ?thesis unfolding e t by (simp add: uptimeKey_def)
qed

theorem missing_start_marker_skipped_witness:
  "(let w = fresh [''sessionActive'' \<mapsto> ''true'', ''dailyUptime_2024-01-01'' \<mapsto> ''5000''];
        cl = \<lparr>cl_todayKey = ''2024-01-01'', cl_sessionActive = True\<rparr>
    in localStorage w ''sessionStart'' = None
       \<and> localStorage (endSession cl 1704067260000 w) ''dailyUptime_2024-01-01'' = Some ''5000''
       \<and> localStorage (endSession cl 1704067260000 w) ''sessionActive'' = Some ''false''
       \<and> sessionActive (endSession cl 1704067260000 w) = False
       \<and> tick cl 1704067260000 ''00:01:00'' w = w)"
proof -
  define w where "w = fresh [''sessionActive'' \<mapsto> ''true'', ''dailyUptime_2024-01-01'' \<mapsto> ''5000'']"
  define cl where "cl = \<lparr>cl_todayKey = ''2024-01-01'', cl_sessionActive = True\<rparr>"
  have h: "localStorage w ''sessionStart'' = None" by (simp add: w_def fresh_def)
  note r = missing_start_marker_skipped [of w cl 1704067260000 "''00:01:00''", OF disjI1 [OF h]]
  have d: "localStorage (endSession cl 1704067260000 w) (uptimeKey ''2024-01-01'')
      = localStorage w (uptimeKey ''2024-01-01'')"
    using r by blast
  have a: "localStorage (endSession cl 1704067260000 w) ''sessionActive'' = Some ''false''"
    using r by simp
  have "localStorage w ''sessionStart'' = None
       \<and> localStorage (endSession cl 1704067260000 w) ''dailyUptime_2024-01-01'' = Some ''5000''
       \<and> localStorage (endSession cl 1704067260000 w) ''sessionActive'' = Some ''false''
       \<and> sessionActive (endSession cl 1704067260000 w) = False
       \<and> tick cl 1704067260000 ''00:01:00'' w = w"
    using h d a r by (simp add: w_def fresh_def uptimeKey_def)
  then show ?thesis by (simp add: w_def cl_def)
qed

subsection \<open>Claim C4: a second \<open>startSession\<close> is a no-op\<close>

text \<open>
  \<open>startSession\<close> tests the \<open>sessionActive\<close> of the render that created it. Two calls
  through one and the same closure would therefore both write; the component never does
  that (its only call is in the mount effect, once per mount), and the claim is about a
  second call that sees the session active.
\<close>

lemma startSession_same_closure:
  "\<not> cl_sessionActive cl \<Longrightarrow>
   calls (startSession cl t2 (startSession cl t1 w))
     = calls w @ [SetItem ''sessionStart'' (js_String t1), SetItem ''sessionActive'' ''true'',
                  SetItem ''sessionStart'' (js_String t2), SetItem ''sessionActive'' ''true'']"
  by (simp add: startSession_def setItem_def)



subsection \<open>Claim C5: the daily totals never decrease\<close>



subsection \<open>Claim C6: mount directly followed by unmount\<close>




subsection \<open>Claim C7: the scenario count\<close>




subsection \<open>Claim C8: the date in the key of a write\<close>

text \<open>
  C8. An interval callback or \<open>endSession\<close> that writes the daily total writes it under the
  date its closure captured when it was rendered, whatever the date is at the moment of the
  write. A session started at 23:59:30 UTC whose first interval callback runs at 00:00:30
  UTC the next day, with no remount, therefore writes under the old date: the key of the
  new date is neither read nor written.
\<close>

theorem tick_writes_render_key:
  assumes "cl_sessionActive cl" and "truthy (parseInt (localStorage w ''sessionStart''))"
  shows "calls (tick cl now tstr w)
           = calls w @ [SetItem (uptimeKey (cl_todayKey cl))
                          (js_String (uptime_at w (uptimeKey (cl_todayKey cl))
                                      + (now - or_zero (parseInt (localStorage w ''sessionStart'')))))]
         \<and> calls (endSession cl now w)
           = calls w @ [SetItem (uptimeKey (cl_todayKey cl))
                          (js_String (uptime_at w (uptimeKey (cl_todayKey cl))
                                      + (now - or_zero (parseInt (localStorage w ''sessionStart''))))),
                        RemoveItem ''sessionStart'', SetItem ''sessionActive'' ''false'']"
  using assms
  by (simp add: tick_def endSession_def Let_def getItem_def setItem_def removeItem_def
      dailyKey_def uptime_at_def)

theorem tick_writes_render_key_witness:
  "(let w = (fresh [''sessionStart'' \<mapsto> ''1704153570000''])\<lparr>sessionActive := True\<rparr>;
        cl = render 1704153570000 w;
        w1 = tick cl 1704153630000 ''00:00:30'' w
    in cl_sessionActive cl
       \<and> truthy (parseInt (localStorage w ''sessionStart''))
       \<and> cl_todayKey cl = ''2024-01-01''
       \<and> todayKey 1704153630000 = ''2024-01-02''
       \<and> calls w1 = [SetItem ''dailyUptime_2024-01-01'' ''60000'']
       \<and> localStorage w1 ''dailyUptime_2024-01-01'' = Some ''60000''
       \<and> localStorage w1 ''dailyUptime_2024-01-02'' = None)"
proof -
  define w where "w = (fresh [''sessionStart'' \<mapsto> ''1704153570000''])\<lparr>sessionActive := True\<rparr>"
  define cl where "cl = render 1704153570000 w"
  define w1 where "w1 = tick cl 1704153630000 ''00:00:30'' w"
  have h1: "cl_sessionActive cl" unfolding cl_def w_def by code_simp
  have h2: "truthy (parseInt (localStorage w ''sessionStart''))" unfolding w_def by code_simp
  have k: "cl_todayKey cl = ''2024-01-01''" unfolding cl_def w_def by code_simp
  have k2: "todayKey 1704153630000 = ''2024-01-02''" by code_simp
  have v: "js_String (uptime_at w (uptimeKey ''2024-01-01'')
             + (1704153630000 - or_zero (parseInt (localStorage w ''sessionStart'')))) = ''60000''"
    unfolding w_def by code_simp
  have c0: "calls w = []" unfolding w_def by code_simp
  have c: "calls w1 = [SetItem ''dailyUptime_2024-01-01'' ''60000'']"
    using tick_writes_render_key [OF h1 h2, of 1704153630000 "''00:00:30''", THEN conjunct1]
    unfolding w1_def k v c0 by (simp add: uptimeKey_def)
  have s1: "localStorage w1 ''dailyUptime_2024-01-01'' = Some ''60000''"
    unfolding w1_def cl_def w_def by code_simp
  have s2: "localStorage w1 ''dailyUptime_2024-01-02'' = None"
    unfolding w1_def cl_def w_def by code_simp
  have "cl_sessionActive cl
       \<and> truthy (parseInt (localStorage w ''sessionStart''))
       \<and> cl_todayKey cl = ''2024-01-01''
       \<and> todayKey 1704153630000 = ''2024-01-02''
       \<and> calls w1 = [SetItem ''dailyUptime_2024-01-01'' ''60000'']
       \<and> localStorage w1 ''dailyUptime_2024-01-01'' = Some ''60000''
       \<and> localStorage w1 ''dailyUptime_2024-01-02'' = None"
    using h1 h2 k k2 c s1 s2 by simp
  then show ?thesis unfolding Let_def w1_def cl_def w_def .
qed

subsection \<open>Claim C9: the history is append-only\<close>

text \<open>
  C9. Every operation of a mounted component either leaves \<open>uptimeHistory\<close> as it is, or
  it is an interval callback and appends exactly one entry at the end: the display time
  of the callback and the total it has just stored, in whole minutes. No operation changes,
  reorders or drops an entry that is already there. (The sequence belongs to the component
  instance and ends with it.)
\<close>

theorem history_append_only:
  "uptimeHistory (exec cl now op w) = uptimeHistory w
   \<or> (\<exists>tstr. op = Tick tstr
          \<and> uptimeHistory (exec cl now op w)
              = uptimeHistory w
                @ [\<lparr>time = tstr, uptime = uptime_at (exec cl now op w) (dailyKey cl) div 60000\<rparr>])"
proof (cases op)
  case (Tick tstr)
  then show ?thesis by (simp add: uptimeHistory_tick)
qed (simp_all add: uptimeHistory_startSession uptimeHistory_endSession uptimeHistory_mount_effect
      unmount_def sessionCount_effect_def fetchScenarios_def Let_def)

theorem history_append_only_witness:
  "(let cl = \<lparr>cl_todayKey = ''2024-01-01'', cl_sessionActive = True\<rparr>;
        w = (fresh [''sessionStart'' \<mapsto> ''1704067200000''])
              \<lparr>uptimeHistory := [\<lparr>time = ''00:01:00'', uptime = 1\<rparr>], sessionActive := True\<rparr>;
        w' = exec cl 1704067320000 (Tick ''00:02:00'') w
    in uptimeHistory w' = [\<lparr>time = ''00:01:00'', uptime = 1\<rparr>, \<lparr>time = ''00:02:00'', uptime = 2\<rparr>]
       \<and> (uptimeHistory w' = uptimeHistory w
            \<or> (\<exists>tstr. Tick ''00:02:00'' = Tick tstr
                  \<and> uptimeHistory w'
                      = uptimeHistory w
                        @ [\<lparr>time = tstr, uptime = uptime_at w' (dailyKey cl) div 60000\<rparr>])))"
proof -
  define cl where "cl = \<lparr>cl_todayKey = ''2024-01-01'', cl_sessionActive = True\<rparr>"
  define w where "w = (fresh [''sessionStart'' \<mapsto> ''1704067200000''])
              \<lparr>uptimeHistory := [\<lparr>time = ''00:01:00'', uptime = 1\<rparr>], sessionActive := True\<rparr>"
  have e: "uptimeHistory (exec cl 1704067320000 (Tick ''00:02:00'') w)
      = [\<lparr>time = ''00:01:00'', uptime = 1\<rparr>, \<lparr>time = ''00:02:00'', uptime = 2\<rparr>]"
    unfolding cl_def w_def by code_simp
  from e history_append_only [of cl 1704067320000 "Tick ''00:02:00''" w]
  show ?thesis unfolding Let_def cl_def w_def by (rule conjI)
qed

subsection \<open>Claim C10: the key is a UTC date, the window a local day\<close>



end
